theory Spec2Isabelle
  imports Main
begin

section \<open>The counter slice of the client (features/counter/counterSlice.ts)\<close>

text \<open>
  The slice keeps one number and a status string. A reducer of the source mutates an Immer
  draft and returns it; here it takes the state and returns the updated one. The status is
  kept as the string it is at run time, so that the set of statuses the slice can reach is
  a property of the reducers and not of a type.
\<close>

subsection \<open>Numbers\<close>

text \<open>
  A \<open>number\<close> of the source language is a binary64 floating-point value. The slice
  starts at 0 and only adds and subtracts, so on integer payloads every value it holds is
  an integer-valued double, an infinity, or NaN; these are the numbers modelled here.
  \<open>Num z\<close> stands for the double whose value is the integer \<open>z\<close>. Fractional numbers
  are left out, and the two zeros are not told apart (the strict equality of the source
  does not tell them apart either).
\<close>

datatype number = Num int | PosInfinity | NegInfinity | NaN

text \<open>The number of binary digits of a natural number.\<close>

fun bit_length :: "nat \<Rightarrow> nat" where
  "bit_length n = (if n = 0 then 0 else Suc (bit_length (n div 2)))"

text \<open>
  Rounding an exact integer result to binary64, to nearest with ties to even: the
  magnitude keeps its 53 leading binary digits (\<open>q\<close> is the weight of the last digit
  kept, 1 for magnitudes of at most 53 digits since the subtraction on naturals stops at
  0), and a result that would need the exponent 1024 is an infinity.
\<close>

definition round64 :: "int \<Rightarrow> number" where
  "round64 z =
     (let a = nat \<bar>z\<bar>;
          q = 2 ^ (bit_length a - 53);
          m = a div q;
          r = a mod q;
          m' = (if 2 * r < q then m
                else if q < 2 * r then m + 1
                else if even m then m else m + 1);
          a' = m' * q
      in if 2 ^ 1024 \<le> a' then (if z < 0 then NegInfinity else PosInfinity)
         else Num (sgn z * int a'))"

fun js_neg :: "number \<Rightarrow> number" where
  "js_neg (Num a) = Num (- a)"
| "js_neg PosInfinity = NegInfinity"
| "js_neg NegInfinity = PosInfinity"
| "js_neg NaN = NaN"

text \<open>The operator \<open>+\<close> on numbers: the exact sum, rounded.\<close>

fun js_add :: "number \<Rightarrow> number \<Rightarrow> number" where
  "js_add (Num a) (Num b) = round64 (a + b)"
| "js_add NaN y = NaN"
| "js_add x NaN = NaN"
| "js_add PosInfinity NegInfinity = NaN"
| "js_add NegInfinity PosInfinity = NaN"
| "js_add PosInfinity y = PosInfinity"
| "js_add x PosInfinity = PosInfinity"
| "js_add NegInfinity y = NegInfinity"
| "js_add x NegInfinity = NegInfinity"

definition js_sub :: "number \<Rightarrow> number \<Rightarrow> number" where
  "js_sub x y = js_add x (js_neg y)"

text \<open>
  The remainder operator \<open>%\<close>: the result takes the sign of the dividend and is exact.
  A zero divisor, an infinite dividend or a NaN operand give NaN; a finite dividend and an
  infinite divisor give the dividend.
\<close>

fun js_rem :: "number \<Rightarrow> number \<Rightarrow> number" where
  "js_rem (Num a) (Num b) = (if b = 0 then NaN else Num (sgn a * (\<bar>a\<bar> mod \<bar>b\<bar>)))"
| "js_rem (Num a) PosInfinity = Num a"
| "js_rem (Num a) NegInfinity = Num a"
| "js_rem x y = NaN"

text \<open>The operator \<open>===\<close> on numbers: NaN equals nothing, itself included.\<close>

fun js_strict_eq :: "number \<Rightarrow> number \<Rightarrow> bool" where
  "js_strict_eq (Num a) (Num b) = (a = b)"
| "js_strict_eq PosInfinity PosInfinity = True"
| "js_strict_eq NegInfinity NegInfinity = True"
| "js_strict_eq x y = False"

subsection \<open>Data model\<close>

record CounterState =
  value_n :: number
  status :: string

text \<open>
  The application state (declared in app/store) holds the counter under the key
  \<open>counter\<close>; the record scheme leaves room for whatever other slices it has.
\<close>

record RootState =
  counter :: CounterState

definition initialState :: CounterState where
  "initialState = \<lparr>value_n = Num 0, status = ''idle''\<rparr>"

text \<open>
  The actions the slice reacts to: the three generated from \<open>reducers\<close>, the three
  lifecycle actions of the async thunk, and any other action of the application, which the
  slice reducer ignores.
\<close>

datatype CounterAction =
    Increment
  | Decrement
  | IncrementByAmount number
  | IncrementAsyncPending
  | IncrementAsyncFulfilled number
  | IncrementAsyncRejected
  | OtherAction

subsection \<open>Case reducers\<close>

definition increment :: "CounterState \<Rightarrow> CounterState" where
  "increment state = state\<lparr>value_n := js_add (value_n state) (Num 1)\<rparr>"

definition decrement :: "CounterState \<Rightarrow> CounterState" where
  "decrement state = state\<lparr>value_n := js_sub (value_n state) (Num 1)\<rparr>"

definition incrementByAmount :: "CounterState \<Rightarrow> number \<Rightarrow> CounterState" where
  "incrementByAmount state payload = state\<lparr>value_n := js_add (value_n state) payload\<rparr>"

definition incrementAsync_pending :: "CounterState \<Rightarrow> CounterState" where
  "incrementAsync_pending state = state\<lparr>status := ''loading''\<rparr>"

definition incrementAsync_fulfilled :: "CounterState \<Rightarrow> number \<Rightarrow> CounterState" where
  "incrementAsync_fulfilled state payload =
     (let state1 = state\<lparr>status := ''idle''\<rparr>
      in state1\<lparr>value_n := js_add (value_n state1) payload\<rparr>)"

definition incrementAsync_rejected :: "CounterState \<Rightarrow> CounterState" where
  "incrementAsync_rejected state = state\<lparr>status := ''failed''\<rparr>"

text \<open>The slice reducer (\<open>counterSlice.reducer\<close>) selects the case reducer by action type.\<close>

fun counterReducer :: "CounterState \<Rightarrow> CounterAction \<Rightarrow> CounterState" where
  "counterReducer state Increment = increment state"
| "counterReducer state Decrement = decrement state"
| "counterReducer state (IncrementByAmount n) = incrementByAmount state n"
| "counterReducer state IncrementAsyncPending = incrementAsync_pending state"
| "counterReducer state (IncrementAsyncFulfilled r) = incrementAsync_fulfilled state r"
| "counterReducer state IncrementAsyncRejected = incrementAsync_rejected state"
| "counterReducer state OtherAction = state"

subsection \<open>Store, selector and the hand-written thunk\<close>

text \<open>Dispatching an action replaces the counter slice by what its reducer returns.\<close>

definition dispatch :: "CounterAction \<Rightarrow> 'a RootState_scheme \<Rightarrow> 'a RootState_scheme" where
  "dispatch action st = st\<lparr>counter := counterReducer (counter st) action\<rparr>"

text \<open>
  The selector is handed the state object of the store. It is written in state-passing
  style, returning the number it reads together with the state it leaves behind, so that
  what it does to the state is part of the model: its body is the expression
  \<open>state.counter.value\<close> and assigns nothing.
\<close>

definition selectCount :: "'a RootState_scheme \<Rightarrow> number \<times> 'a RootState_scheme" where
  "selectCount state = (value_n (counter state), state)"

definition incrementIfOdd :: "number \<Rightarrow> 'a RootState_scheme \<Rightarrow> 'a RootState_scheme" where
  "incrementIfOdd amount st =
     (let (currentValue, st1) = selectCount st
      in if js_strict_eq (js_rem currentValue (Num 2)) (Num 1)
         then dispatch (IncrementByAmount amount) st1
         else st1)"

subsection \<open>The async thunk\<close>

text \<open>
  A promise is observed here only through how it settles: with a result, or rejected.
\<close>

datatype 'a promise = Resolve 'a | Reject

record Response =
  data :: number

text \<open>
  Modelled from the spec: \<open>fetchCount\<close> of features/counter/counterAPI, which is not
  among the sources. After a fixed simulated delay it resolves with \<open>data = amount\<close> (an
  echo), or it may reject to simulate a transient failure; the flag says which of the two
  happens, and the delay has no counterpart here.
\<close>

definition fetchCount :: "bool \<Rightarrow> number \<Rightarrow> Response promise" where
  "fetchCount fails amount = (if fails then Reject else Resolve \<lparr>data = amount\<rparr>)"

text \<open>
  The payload creator handed to \<open>createAsyncThunk\<close> awaits the fetcher and returns
  \<open>response.data\<close>; a rejection of the fetcher passes through. The fetcher is a parameter.
\<close>

definition incrementAsync_payloadCreator ::
  "(number \<Rightarrow> Response promise) \<Rightarrow> number \<Rightarrow> number promise" where
  "incrementAsync_payloadCreator fetch amount =
     (case fetch amount of
        Resolve response \<Rightarrow> Resolve (data response)
      | Reject \<Rightarrow> Reject)"

text \<open>
  The lifecycle of the thunk: \<open>pending\<close> is dispatched on invocation; when the payload
  creator settles, \<open>fulfilled\<close> is dispatched with what it returned, or \<open>rejected\<close>.
\<close>

definition incrementAsync_start :: "'a RootState_scheme \<Rightarrow> 'a RootState_scheme" where
  "incrementAsync_start st = dispatch IncrementAsyncPending st"

definition incrementAsync_settled ::
  "(number \<Rightarrow> Response promise) \<Rightarrow> number \<Rightarrow> CounterAction" where
  "incrementAsync_settled fetch amount =
     (case incrementAsync_payloadCreator fetch amount of
        Resolve payload \<Rightarrow> IncrementAsyncFulfilled payload
      | Reject \<Rightarrow> IncrementAsyncRejected)"

definition incrementAsync_settle ::
  "(number \<Rightarrow> Response promise) \<Rightarrow> number \<Rightarrow> 'a RootState_scheme \<Rightarrow> 'a RootState_scheme" where
  "incrementAsync_settle fetch amount st = dispatch (incrementAsync_settled fetch amount) st"

subsection \<open>Sequences of operations\<close>

text \<open>
  What a client can do to the store: dispatch an action, or run the hand-written thunk.
  The two steps of the async thunk appear as the dispatches of its lifecycle actions, so
  that other operations may fall between them.
\<close>

datatype Operation = Dispatch CounterAction | IncrementIfOdd number

fun applyOperation :: "'a RootState_scheme \<Rightarrow> Operation \<Rightarrow> 'a RootState_scheme" where
  "applyOperation st (Dispatch action) = dispatch action st"
| "applyOperation st (IncrementIfOdd amount) = incrementIfOdd amount st"

definition runOperations :: "'a RootState_scheme \<Rightarrow> Operation list \<Rightarrow> 'a RootState_scheme" where
  "runOperations st ops = foldl applyOperation st ops"

definition initialRoot :: RootState where
  "initialRoot = \<lparr>counter = initialState\<rparr>"

text \<open>The three statuses the state type of the source admits.\<close>

definition known_status :: "string \<Rightarrow> bool" where
  "known_status x = (x = ''idle'' \<or> x = ''loading'' \<or> x = ''failed'')"

section \<open>Properties\<close>

subsection \<open>Rounding\<close>

declare bit_length.simps [simp del]

lemma bit_length_0: "bit_length 0 = 0"
  by (simp add: bit_length.simps)

lemma bit_length_pos: "0 < n \<Longrightarrow> bit_length n = Suc (bit_length (n div 2))"
  by (subst bit_length.simps) simp

lemma bit_length_le: "n < 2 ^ k \<Longrightarrow> bit_length n \<le> k"
proof (induction k arbitrary: n)
  case 0
  then show ?case by (simp add: bit_length_0)
next
  case (Suc k)
  show ?case
  proof (cases "n = 0")
    case True
    then show ?thesis by (simp add: bit_length_0)
  next
    case False
    from Suc.prems have "n div 2 < 2 ^ k" by simp
    then have "bit_length (n div 2) \<le> k" by (rule Suc.IH)
    with False show ?thesis by (simp add: bit_length_pos)
  qed
qed

lemma bit_length_eq: "2 ^ k \<le> n \<Longrightarrow> n < 2 ^ Suc k \<Longrightarrow> bit_length n = Suc k"
proof (induction k arbitrary: n)
  case 0
  then have "n = 1" by simp
  then show ?case by (simp add: bit_length_pos bit_length_0)
next
  case (Suc k)
  have "(0::nat) < 2 ^ Suc k" by simp
  then have pos: "0 < n" using Suc.prems(1) by (rule less_le_trans)
  from Suc.prems have "2 ^ k \<le> n div 2" and "n div 2 < 2 ^ Suc k" by simp_all
  then have "bit_length (n div 2) = Suc k" by (rule Suc.IH)
  with pos show ?case by (simp add: bit_length_pos)
qed

text \<open>Integers of magnitude up to \<open>2 ^ 53\<close> are doubles: rounding leaves them alone.\<close>

lemma round64_exact: "\<bar>z\<bar> \<le> 2 ^ 53 \<Longrightarrow> round64 z = Num z"
proof (cases "nat \<bar>z\<bar> < 2 ^ 53")
  case True
  then have q: "bit_length (nat \<bar>z\<bar>) - 53 = 0"
    using bit_length_le [of "nat \<bar>z\<bar>" 53] by simp
  have "(2::nat) ^ 53 < 2 ^ 1024" by simp
  with True have small: "nat \<bar>z\<bar> < 2 ^ 1024" by (rule less_trans)
  have "sgn z * \<bar>z\<bar> = z" by (rule sgn_mult_abs)
  with q small show ?thesis
    by (simp add: round64_def Let_def not_le)
next
  case False
  assume "\<bar>z\<bar> \<le> 2 ^ 53"
  with False have az: "\<bar>z\<bar> = 2 ^ 53" by simp
  then have a: "nat \<bar>z\<bar> = 2 ^ 53" by simp
  have "bit_length ((2::nat) ^ 53) = Suc 53"
    by (rule bit_length_eq) simp_all
  then have q: "bit_length (nat \<bar>z\<bar>) - 53 = 1"
    unfolding a by simp
  have "sgn z * \<bar>z\<bar> = z" by (rule sgn_mult_abs)
  with az have z: "sgn z * 2 ^ 53 = z" by simp
  have "round64 z = Num (sgn z * int (2 ^ 53))"
    unfolding round64_def Let_def q unfolding a by simp
  with z show ?thesis by simp
qed

text \<open>Beyond \<open>2 ^ 53\<close> only every other integer is a double, and ties go to the even one.\<close>

lemma round64_above_2_53:
  "round64 (2 ^ 53 + 1) = Num (2 ^ 53)"
  "round64 (2 ^ 53 + 3) = Num (2 ^ 53 + 4)"
  "round64 (2 ^ 53 + 9) = Num (2 ^ 53 + 8)"
proof -
  have "bit_length (nat \<bar>2 ^ 53 + 1\<bar>) = 54"
    by (rule bit_length_eq [of 53, simplified]) simp_all
  then show "round64 (2 ^ 53 + 1) = Num (2 ^ 53)"
    by (simp add: round64_def Let_def)
  have "bit_length (nat \<bar>2 ^ 53 + 3\<bar>) = 54"
    by (rule bit_length_eq [of 53, simplified]) simp_all
  then show "round64 (2 ^ 53 + 3) = Num (2 ^ 53 + 4)"
    by (simp add: round64_def Let_def)
  have "bit_length (nat \<bar>2 ^ 53 + 9\<bar>) = 54"
    by (rule bit_length_eq [of 53, simplified]) simp_all
  then show "round64 (2 ^ 53 + 9) = Num (2 ^ 53 + 8)"
    by (simp add: round64_def Let_def)
qed

text \<open>
  The largest double is \<open>2 ^ 1024 - 2 ^ 971\<close>; from half a step above it on, results are
  infinite.
\<close>

lemma round64_overflow:
  "round64 (2 ^ 1024 - 2 ^ 970 - 1) = Num (2 ^ 1024 - 2 ^ 971)"
  "round64 (2 ^ 1024 - 2 ^ 970) = PosInfinity"
  "round64 (- (2 ^ 1024)) = NegInfinity"
proof -
  have "bit_length (nat \<bar>2 ^ 1024 - 2 ^ 970 - 1\<bar>) = 1024"
    by (rule bit_length_eq [of 1023, simplified]) simp_all
  then show "round64 (2 ^ 1024 - 2 ^ 970 - 1) = Num (2 ^ 1024 - 2 ^ 971)"
    by (simp add: round64_def Let_def)
  have "bit_length (nat \<bar>2 ^ 1024 - 2 ^ 970\<bar>) = 1024"
    by (rule bit_length_eq [of 1023, simplified]) simp_all
  then show "round64 (2 ^ 1024 - 2 ^ 970) = PosInfinity"
    by (simp add: round64_def Let_def)
  have "bit_length (nat \<bar>- (2 ^ 1024)\<bar>) = 1025"
    by (rule bit_length_eq [of 1024, simplified]) simp_all
  then show "round64 (- (2 ^ 1024)) = NegInfinity"
    by (simp add: round64_def Let_def)
qed

lemma js_add_exact: "\<bar>a + b\<bar> \<le> 2 ^ 53 \<Longrightarrow> js_add (Num a) (Num b) = Num (a + b)"
  by (simp add: round64_exact)

lemma js_sub_exact: "\<bar>a - b\<bar> \<le> 2 ^ 53 \<Longrightarrow> js_sub (Num a) (Num b) = Num (a - b)"
  by (simp add: js_sub_def round64_exact)

subsection \<open>Helper facts\<close>

lemmas caseReducer_defs =
  increment_def decrement_def incrementByAmount_def
  incrementAsync_pending_def incrementAsync_fulfilled_def incrementAsync_rejected_def

lemma odd_test:
  "js_strict_eq (js_rem x (Num 2)) (Num 1) \<longleftrightarrow> (\<exists>v. x = Num v \<and> 0 < v \<and> odd v)"
proof (cases x)
  case (Num v)
  show ?thesis
  proof (cases "0 < v")
    case True
    with Num show ?thesis by (simp add: odd_iff_mod_2_eq_one)
  next
    case False
    have "0 \<le> \<bar>v\<bar> mod 2" by simp
    with False have "sgn v * (\<bar>v\<bar> mod 2) \<le> 0" by (simp add: mult_le_0_iff sgn_if)
    with False Num show ?thesis by simp
  qed
qed simp_all

text \<open>
  What the thunk does, with the remainder test spelled out: it dispatches exactly when the
  current number is an odd positive integer.
\<close>

lemma incrementIfOdd_cases:
  "incrementIfOdd amount st =
     (if \<exists>v. value_n (counter st) = Num v \<and> 0 < v \<and> odd v
      then dispatch (IncrementByAmount amount) st else st)"
  by (simp add: incrementIfOdd_def selectCount_def odd_test)

lemma value_increment: "value_n (increment t) = js_add (value_n t) (Num 1)"
  by (simp add: increment_def)

lemma value_decrement: "value_n (decrement t) = js_sub (value_n t) (Num 1)"
  by (simp add: decrement_def)

lemma value_funpow_increment:
  "value_n s = Num v \<Longrightarrow> - (2 ^ 53) \<le> v \<Longrightarrow> v + int k \<le> 2 ^ 53 \<Longrightarrow>
   value_n ((increment ^^ k) s) = Num (v + int k)"
proof (induction k)
  case 0
  then show ?case by simp
next
  case (Suc k)
  then have "value_n ((increment ^^ k) s) = Num (v + int k)" by simp
  moreover from Suc.prems have "\<bar>v + int k + 1\<bar> \<le> 2 ^ 53" by simp
  ultimately show ?case
    by (simp add: value_increment round64_exact add.assoc)
qed

lemma value_funpow_decrement:
  "value_n s = Num v \<Longrightarrow> - (2 ^ 53) \<le> v - int k \<Longrightarrow> v \<le> 2 ^ 53 \<Longrightarrow>
   value_n ((decrement ^^ k) s) = Num (v - int k)"
proof (induction k)
  case 0
  then show ?case by simp
next
  case (Suc k)
  then have "value_n ((decrement ^^ k) s) = Num (v - int k)" by simp
  moreover from Suc.prems have "\<bar>v - int k - 1\<bar> \<le> 2 ^ 53" by simp
  ultimately show ?case
    by (simp add: value_decrement js_sub_def round64_exact diff_diff_eq)
qed

lemma count_list_replicate:
  "count_list (replicate n x) y = (if x = y then n else 0)"
  by (induction n) auto

lemma value_foldl_steps:
  "set as \<subseteq> {Increment, Decrement} \<Longrightarrow> value_n s = Num v \<Longrightarrow>
   v + int (count_list as Increment) \<le> 2 ^ 53 \<Longrightarrow>
   - (2 ^ 53) \<le> v - int (count_list as Decrement) \<Longrightarrow>
   value_n (foldl counterReducer s as) =
     Num (v + int (count_list as Increment) - int (count_list as Decrement))"
proof (induction as arbitrary: s v)
  case Nil
  then show ?case by simp
next
  case (Cons a as)
  then have a: "a = Increment \<or> a = Decrement" and rest: "set as \<subseteq> {Increment, Decrement}"
    by auto
  from a show ?case
  proof
    assume inc: "a = Increment"
    with Cons.prems have "\<bar>v + 1\<bar> \<le> 2 ^ 53" by simp
    with Cons.prems(2) have v1: "value_n (counterReducer s Increment) = Num (v + 1)"
      by (simp add: value_increment round64_exact)
    from inc Cons.prems have "v + 1 + int (count_list as Increment) \<le> 2 ^ 53"
      and "- (2 ^ 53) \<le> v + 1 - int (count_list as Decrement)" by simp_all
    with rest v1 have "value_n (foldl counterReducer (counterReducer s Increment) as) =
        Num (v + 1 + int (count_list as Increment) - int (count_list as Decrement))"
      by (rule Cons.IH)
    with inc show ?thesis by simp
  next
    assume dec: "a = Decrement"
    with Cons.prems have "\<bar>v - 1\<bar> \<le> 2 ^ 53" by simp
    with Cons.prems(2) have v1: "value_n (counterReducer s Decrement) = Num (v - 1)"
      by (simp add: value_decrement js_sub_def round64_exact)
    from dec Cons.prems have "v - 1 + int (count_list as Increment) \<le> 2 ^ 53"
      and "- (2 ^ 53) \<le> v - 1 - int (count_list as Decrement)" by simp_all
    with rest v1 have "value_n (foldl counterReducer (counterReducer s Decrement) as) =
        Num (v - 1 + int (count_list as Increment) - int (count_list as Decrement))"
      by (rule Cons.IH)
    with dec show ?thesis by simp
  qed
qed

lemma known_status_counterReducer:
  "known_status (status s) \<Longrightarrow> known_status (status (counterReducer s a))"
  by (cases a) (simp_all add: known_status_def caseReducer_defs)

lemma known_status_applyOperation:
  "known_status (status (counter st)) \<Longrightarrow>
   known_status (status (counter (applyOperation st op)))"
  by (cases op)
     (simp_all add: dispatch_def incrementIfOdd_cases known_status_counterReducer
        del: counterReducer.simps)

lemma known_status_runOperations:
  "known_status (status (counter st)) \<Longrightarrow>
   known_status (status (counter (runOperations st ops)))"
  unfolding runOperations_def
  by (induction ops arbitrary: st) (simp_all add: known_status_applyOperation)

subsection \<open>Properties of the slice\<close>

text \<open>
  C7. The initial state of the counter container has the number 0 and the status idle.
\<close>

theorem initialState_fields:
  "value_n initialState = Num 0 \<and> status initialState = ''idle''"
  by (simp add: initialState_def)

text \<open>
  C1. \<open>incrementIfOdd\<close> is to add the amount whenever the current number is odd, negative
  odd numbers included, and to do nothing when it is even. The test of the thunk is
  \<open>currentValue % 2 === 1\<close>, and the remainder of a negative odd number is \<open>-1\<close>: on
  the state with the number \<open>-3\<close>, which three decrements reach from the initial state,
  the thunk dispatches nothing and the number stays \<open>-3\<close> instead of becoming \<open>7\<close>.
\<close>

theorem incrementIfOdd_negative_odd_unchanged:
  "js_rem (Num (- 3)) (Num 2) = Num (- 1) \<and>
   incrementIfOdd (Num 10) \<lparr>counter = \<lparr>value_n = Num (- 3), status = ''idle''\<rparr>\<rparr>
     = \<lparr>counter = \<lparr>value_n = Num (- 3), status = ''idle''\<rparr>\<rparr> \<and>
   fst (selectCount
      (incrementIfOdd (Num 10) \<lparr>counter = \<lparr>value_n = Num (- 3), status = ''idle''\<rparr>\<rparr>))
     \<noteq> Num (- 3 + 10) \<and>
   runOperations initialRoot [Dispatch Decrement, Dispatch Decrement, Dispatch Decrement]
     = \<lparr>counter = \<lparr>value_n = Num (- 3), status = ''idle''\<rparr>\<rparr> \<and>
   runOperations initialRoot
       [Dispatch Decrement, Dispatch Decrement, Dispatch Decrement, IncrementIfOdd (Num 10)]
     = \<lparr>counter = \<lparr>value_n = Num (- 3), status = ''idle''\<rparr>\<rparr>"
  by (simp add: incrementIfOdd_def selectCount_def runOperations_def
      initialRoot_def initialState_def dispatch_def decrement_def js_sub_def round64_exact)

text \<open>
  C2. \<open>incrementByAmount(n)\<close> is to yield the same number as \<open>n\<close> applications of
  \<open>increment\<close> when \<open>n \<ge> 0\<close>, and as \<open>|n|\<close> applications of \<open>decrement\<close> when
  \<open>n < 0\<close>, for every integer \<open>n\<close>. Sums are rounded to doubles, so this fails beyond
  \<open>2 ^ 53\<close>: there adding 3 at once gives \<open>2 ^ 53 + 4\<close>, while each single increment
  is rounded away. It holds when the number \<open>v\<close> of the state and \<open>v + n\<close> both lie between
  \<open>- 2 ^ 53\<close> and \<open>2 ^ 53\<close>.
\<close>

theorem incrementByAmount_as_repeated_steps:
  assumes "value_n s = Num v" and "\<bar>v\<bar> \<le> 2 ^ 53" and "\<bar>v + n\<bar> \<le> 2 ^ 53"
  shows "(0 \<le> n \<longrightarrow>
            value_n (counterReducer s (IncrementByAmount (Num n)))
              = value_n (((\<lambda>t. counterReducer t Increment) ^^ nat n) s)) \<and>
         (n < 0 \<longrightarrow>
            value_n (counterReducer s (IncrementByAmount (Num n)))
              = value_n (((\<lambda>t. counterReducer t Decrement) ^^ nat \<bar>n\<bar>) s))"
proof -
  from assms(1,3) have at_once: "value_n (counterReducer s (IncrementByAmount (Num n))) = Num (v + n)"
    by (simp add: incrementByAmount_def round64_exact)
  have up: "value_n ((increment ^^ nat n) s) = Num (v + n)" if "0 \<le> n"
  proof -
    from assms(2,3) that have "- (2 ^ 53) \<le> v" and "v + int (nat n) \<le> 2 ^ 53" by simp_all
    with assms(1) have "value_n ((increment ^^ nat n) s) = Num (v + int (nat n))"
      by (rule value_funpow_increment)
    with that show ?thesis by simp
  qed
  have down: "value_n ((decrement ^^ nat \<bar>n\<bar>) s) = Num (v + n)" if "n < 0"
  proof -
    from assms(2,3) that have "- (2 ^ 53) \<le> v - int (nat \<bar>n\<bar>)" and "v \<le> 2 ^ 53" by simp_all
    with assms(1) have "value_n ((decrement ^^ nat \<bar>n\<bar>) s) = Num (v - int (nat \<bar>n\<bar>))"
      by (rule value_funpow_decrement)
    with that show ?thesis by simp
  qed
  have "(\<lambda>t. counterReducer t Increment) = increment"
    and "(\<lambda>t. counterReducer t Decrement) = decrement"
    by (simp_all add: fun_eq_iff)
  with at_once up down show ?thesis by simp
qed

theorem incrementByAmount_as_repeated_steps_witness:
  "value_n initialState = Num 0 \<and> \<bar>0::int\<bar> \<le> 2 ^ 53 \<and>
   \<bar>0 + 3 :: int\<bar> \<le> 2 ^ 53 \<and> (0::int) \<le> 3 \<and>
   value_n (counterReducer initialState (IncrementByAmount (Num 3)))
     = value_n (((\<lambda>t. counterReducer t Increment) ^^ nat 3) initialState) \<and>
   \<bar>0 + - 2 :: int\<bar> \<le> 2 ^ 53 \<and> (- 2 :: int) < 0 \<and>
   value_n (counterReducer initialState (IncrementByAmount (Num (- 2))))
     = value_n (((\<lambda>t. counterReducer t Decrement) ^^ nat \<bar>- 2\<bar>) initialState)"
proof -
  have v: "value_n initialState = Num 0" by (simp add: initialState_def)
  have b0: "\<bar>0::int\<bar> \<le> 2 ^ 53" and b3: "\<bar>0 + 3 :: int\<bar> \<le> 2 ^ 53"
    and b2: "\<bar>0 + - 2 :: int\<bar> \<le> 2 ^ 53" by simp_all
  show ?thesis
    using v incrementByAmount_as_repeated_steps [OF v b0 b3]
      incrementByAmount_as_repeated_steps [OF v b0 b2]
    by simp
qed

text \<open>
  C2, beyond the range: from \<open>2 ^ 53\<close>, which one \<open>incrementByAmount\<close> reaches from the initial
  state, adding 3 at once and adding 1 three times differ.
\<close>

theorem incrementByAmount_rounding_counterexample:
  "counterReducer initialState (IncrementByAmount (Num (2 ^ 53)))
     = \<lparr>value_n = Num (2 ^ 53), status = ''idle''\<rparr> \<and>
   value_n (counterReducer \<lparr>value_n = Num (2 ^ 53), status = ''idle''\<rparr>
      (IncrementByAmount (Num 3))) = Num (2 ^ 53 + 4) \<and>
   value_n (((\<lambda>t. counterReducer t Increment) ^^ nat 3)
      \<lparr>value_n = Num (2 ^ 53), status = ''idle''\<rparr>) = Num (2 ^ 53) \<and>
   value_n (counterReducer \<lparr>value_n = Num (2 ^ 53), status = ''idle''\<rparr>
      (IncrementByAmount (Num 3)))
     \<noteq> value_n (((\<lambda>t. counterReducer t Increment) ^^ nat 3)
          \<lparr>value_n = Num (2 ^ 53), status = ''idle''\<rparr>)"
  by (simp add: initialState_def increment_def incrementByAmount_def eval_nat_numeral
      round64_exact round64_above_2_53 [simplified])

text \<open>
  C3. When the fetch of \<open>incrementAsync\<close> is rejected, the resulting state has the status
  failed, and its number is the one the state had at the moment of the rejection.
\<close>

theorem incrementAsync_rejected_keeps_value:
  assumes "fetch amount = Reject"
  shows "incrementAsync_settled fetch amount = IncrementAsyncRejected \<and>
         status (counter (incrementAsync_settle fetch amount st)) = ''failed'' \<and>
         value_n (counter (incrementAsync_settle fetch amount st)) = value_n (counter st) \<and>
         status (counterReducer s IncrementAsyncRejected) = ''failed'' \<and>
         value_n (counterReducer s IncrementAsyncRejected) = value_n s"
  using assms
  by (simp add: incrementAsync_settle_def incrementAsync_settled_def
      incrementAsync_payloadCreator_def dispatch_def incrementAsync_rejected_def)

theorem incrementAsync_rejected_keeps_value_witness:
  "(\<lambda>_. Reject) (Num 7) = (Reject :: Response promise) \<and>
   status (counter (incrementAsync_settle (\<lambda>_. Reject) (Num 7)
      \<lparr>counter = \<lparr>value_n = Num 4, status = ''loading''\<rparr>\<rparr>)) = ''failed'' \<and>
   value_n (counter (incrementAsync_settle (\<lambda>_. Reject) (Num 7)
      \<lparr>counter = \<lparr>value_n = Num 4, status = ''loading''\<rparr>\<rparr>)) = Num 4"
  using incrementAsync_rejected_keeps_value
    [of "\<lambda>_. Reject" "Num 7" "\<lparr>counter = \<lparr>value_n = Num 4, status = ''loading''\<rparr>\<rparr>"]
  by simp

text \<open>
  C4. The pending action of \<open>incrementAsync\<close> sets the status to loading and leaves the
  number as it is; the fulfilled action with the resolved number \<open>r\<close> sets the status to
  idle and is to set the number to the number plus \<open>r\<close>. The sum is the rounded sum of
  doubles: at \<open>2 ^ 53 - 1\<close> with \<open>r = 10\<close> it is \<open>2 ^ 53 + 8\<close>, not \<open>2 ^ 53 + 9\<close>. The
  number becomes the sum the source language computes, which is the exact sum whenever that
  lies between \<open>- 2 ^ 53\<close> and \<open>2 ^ 53\<close>.
\<close>

theorem incrementAsync_pending_fulfilled:
  "status (counterReducer s IncrementAsyncPending) = ''loading'' \<and>
   value_n (counterReducer s IncrementAsyncPending) = value_n s \<and>
   status (counterReducer s (IncrementAsyncFulfilled r)) = ''idle'' \<and>
   value_n (counterReducer s (IncrementAsyncFulfilled r)) = js_add (value_n s) r \<and>
   (value_n s = Num v \<and> \<bar>v + k\<bar> \<le> 2 ^ 53 \<longrightarrow>
      value_n (counterReducer s (IncrementAsyncFulfilled (Num k))) = Num (v + k))"
  by (simp add: incrementAsync_pending_def incrementAsync_fulfilled_def round64_exact)

theorem incrementAsync_pending_fulfilled_witness:
  "value_n \<lparr>value_n = Num 0, status = ''loading''\<rparr> = Num 0 \<and> \<bar>0 + 7 :: int\<bar> \<le> 2 ^ 53 \<and>
   counterReducer \<lparr>value_n = Num 0, status = ''idle''\<rparr> IncrementAsyncPending
     = \<lparr>value_n = Num 0, status = ''loading''\<rparr> \<and>
   status (counterReducer \<lparr>value_n = Num 0, status = ''loading''\<rparr>
      (IncrementAsyncFulfilled (Num 7))) = ''idle'' \<and>
   value_n (counterReducer \<lparr>value_n = Num 0, status = ''loading''\<rparr>
      (IncrementAsyncFulfilled (Num 7))) = Num 7"
  using incrementAsync_pending_fulfilled
    [of "\<lparr>value_n = Num 0, status = ''loading''\<rparr>" "Num 7" 0 7]
  by (simp add: incrementAsync_pending_def round64_exact)

text \<open>
  C4, beyond the range: at \<open>2 ^ 53 - 1\<close>, reached from the initial state, the fulfilled
  action with 10 does not give the exact sum.
\<close>

theorem incrementAsync_fulfilled_rounding_counterexample:
  "foldl counterReducer initialState [IncrementByAmount (Num (2 ^ 53 - 1)), IncrementAsyncPending]
     = \<lparr>value_n = Num (2 ^ 53 - 1), status = ''loading''\<rparr> \<and>
   value_n (counterReducer \<lparr>value_n = Num (2 ^ 53 - 1), status = ''loading''\<rparr>
      (IncrementAsyncFulfilled (Num 10))) = Num (2 ^ 53 + 8) \<and>
   value_n (counterReducer \<lparr>value_n = Num (2 ^ 53 - 1), status = ''loading''\<rparr>
      (IncrementAsyncFulfilled (Num 10))) \<noteq> Num (2 ^ 53 - 1 + 10)"
  by (simp add: initialState_def incrementByAmount_def incrementAsync_pending_def
      incrementAsync_fulfilled_def round64_exact round64_above_2_53 [simplified])

text \<open>
  C5. After any sequence of the operations (the dispatch of any action of the slice, the
  lifecycle actions of \<open>incrementAsync\<close> among them, and \<open>incrementIfOdd\<close>) from the
  initial state, the status is one of idle, loading and failed.
\<close>

theorem status_always_known:
  "status (counter (runOperations initialRoot ops)) \<in> {''idle'', ''loading'', ''failed''}"
proof -
  have "known_status (status (counter initialRoot))"
    by (simp add: known_status_def initialRoot_def initialState_def)
  then have "known_status (status (counter (runOperations initialRoot ops)))"
    by (rule known_status_runOperations)
  then show ?thesis
    by (simp add: known_status_def)
qed

text \<open>
  C6. \<open>n\<close> increments followed by \<open>n\<close> decrements, or as many of each in any
  order, are to return the number to where it started, for every state. Each step is
  rounded to a double, so this fails at \<open>2 ^ 53\<close>: the increment is rounded away and the
  decrement then gives \<open>2 ^ 53 - 1\<close>. It holds when the number \<open>v\<close> of the state is an
  integer with \<open>v - n\<close> and \<open>v + n\<close> between \<open>- 2 ^ 53\<close> and \<open>2 ^ 53\<close>.
\<close>

theorem increment_decrement_equal_counts:
  assumes "value_n s = Num v"
    and "set as \<subseteq> {Increment, Decrement}"
    and "count_list as Increment = n" and "count_list as Decrement = n"
    and "- (2 ^ 53) \<le> v - int n" and "v + int n \<le> 2 ^ 53"
  shows "value_n (foldl counterReducer s as) = value_n s \<and>
         value_n (foldl counterReducer s (replicate n Increment @ replicate n Decrement))
           = value_n s"
proof -
  have steps: "value_n (foldl counterReducer s bs) = value_n s"
    if "set bs \<subseteq> {Increment, Decrement}"
      and "count_list bs Increment = n" and "count_list bs Decrement = n" for bs
  proof -
    from that assms(5,6) have "v + int (count_list bs Increment) \<le> 2 ^ 53"
      and "- (2 ^ 53) \<le> v - int (count_list bs Decrement)" by simp_all
    with that(1) assms(1) have "value_n (foldl counterReducer s bs) =
        Num (v + int (count_list bs Increment) - int (count_list bs Decrement))"
      by (rule value_foldl_steps)
    with that assms(1) show ?thesis by simp
  qed
  have "set (replicate n Increment @ replicate n Decrement) \<subseteq> {Increment, Decrement}"
    by auto
  moreover have "count_list (replicate n Increment @ replicate n Decrement) Increment = n"
    and "count_list (replicate n Increment @ replicate n Decrement) Decrement = n"
    by (simp_all add: count_list_replicate)
  ultimately have "value_n (foldl counterReducer s (replicate n Increment @ replicate n Decrement))
      = value_n s"
    by (rule steps)
  moreover from assms(2,3,4) have "value_n (foldl counterReducer s as) = value_n s"
    by (rule steps)
  ultimately show ?thesis by simp
qed

theorem increment_decrement_equal_counts_witness:
  "value_n \<lparr>value_n = Num 5, status = ''idle''\<rparr> = Num 5 \<and>
   set [Increment, Decrement, Decrement, Increment] \<subseteq> {Increment, Decrement} \<and>
   count_list [Increment, Decrement, Decrement, Increment] Increment = 2 \<and>
   count_list [Increment, Decrement, Decrement, Increment] Decrement = 2 \<and>
   - (2 ^ 53) \<le> (5::int) - int 2 \<and> (5::int) + int 2 \<le> 2 ^ 53 \<and>
   value_n (foldl counterReducer \<lparr>value_n = Num 5, status = ''idle''\<rparr>
      [Increment, Decrement, Decrement, Increment]) = Num 5 \<and>
   value_n (foldl counterReducer \<lparr>value_n = Num 5, status = ''idle''\<rparr>
      (replicate 2 Increment @ replicate 2 Decrement)) = Num 5"
proof -
  have v: "value_n \<lparr>value_n = Num 5, status = ''idle''\<rparr> = Num 5" by simp
  have lo: "- (2 ^ 53) \<le> (5::int) - int 2" and hi: "(5::int) + int 2 \<le> 2 ^ 53" by simp_all
  have s1: "set [Increment, Decrement, Decrement, Increment] \<subseteq> {Increment, Decrement}"
    and i1: "count_list [Increment, Decrement, Decrement, Increment] Increment = 2"
    and d1: "count_list [Increment, Decrement, Decrement, Increment] Decrement = 2"
    by simp_all
  from increment_decrement_equal_counts [OF v s1 i1 d1 lo hi]
  have "value_n (foldl counterReducer \<lparr>value_n = Num 5, status = ''idle''\<rparr>
          [Increment, Decrement, Decrement, Increment]) = Num 5"
    and "value_n (foldl counterReducer \<lparr>value_n = Num 5, status = ''idle''\<rparr>
          (replicate 2 Increment @ replicate 2 Decrement)) = Num 5"
    by simp_all
  with v lo hi s1 i1 d1 show ?thesis by blast
qed

text \<open>
  C6, beyond the range: at \<open>2 ^ 53\<close>, reached from the initial state, an increment and a
  decrement do not cancel.
\<close>

theorem increment_decrement_rounding_counterexample:
  "counterReducer initialState (IncrementByAmount (Num (2 ^ 53)))
     = \<lparr>value_n = Num (2 ^ 53), status = ''idle''\<rparr> \<and>
   value_n (counterReducer \<lparr>value_n = Num (2 ^ 53), status = ''idle''\<rparr> Increment)
     = Num (2 ^ 53) \<and>
   value_n (foldl counterReducer \<lparr>value_n = Num (2 ^ 53), status = ''idle''\<rparr>
      [Increment, Decrement]) = Num (2 ^ 53 - 1) \<and>
   value_n (foldl counterReducer \<lparr>value_n = Num (2 ^ 53), status = ''idle''\<rparr>
      [Increment, Decrement]) \<noteq> value_n \<lparr>value_n = Num (2 ^ 53), status = ''idle''\<rparr>"
  by (simp add: initialState_def increment_def decrement_def incrementByAmount_def js_sub_def
      round64_exact round64_above_2_53 [simplified])

text \<open>
  C8. \<open>selectCount\<close> returns the number of the counter slice, whatever else the
  application state holds, and has no side effect: it leaves the state as it found it, a
  second application returns what the first did, and on equal states it returns equal
  results.
\<close>

theorem selectCount_reads_value:
  "fst (selectCount st) = value_n (counter st) \<and>
   snd (selectCount st) = st \<and>
   fst (selectCount (snd (selectCount st))) = fst (selectCount st) \<and>
   (st = st' \<longrightarrow> selectCount st = selectCount st') \<and>
   fst (selectCount (RootState.more_update f st)) = fst (selectCount st)"
  by (simp add: selectCount_def)

theorem selectCount_reads_value_witness:
  "incrementAsync_start initialRoot = dispatch IncrementAsyncPending initialRoot \<and>
   selectCount (incrementAsync_start initialRoot)
     = selectCount (dispatch IncrementAsyncPending initialRoot) \<and>
   selectCount initialRoot = (Num 0, initialRoot)"
  using selectCount_reads_value
    [of "incrementAsync_start initialRoot" "dispatch IncrementAsyncPending initialRoot"]
    selectCount_reads_value [of initialRoot initialRoot]
  by (simp add: incrementAsync_start_def selectCount_def initialRoot_def initialState_def)

text \<open>
  C9. The fulfilled payload of \<open>incrementAsync(amount)\<close> is the number the fetcher
  resolved with, which is the amount with the echoing fetcher of the specification; a
  successful \<open>incrementAsync(amount)\<close> is then to take the number \<open>v\<close> to \<open>v + amount\<close>.
  The sum is the rounded sum of doubles: at \<open>2 ^ 53\<close> a successful \<open>incrementAsync(1)\<close>
  leaves \<open>2 ^ 53\<close>. The number becomes the sum the source language computes, which is
  the exact sum whenever that lies between \<open>- 2 ^ 53\<close> and \<open>2 ^ 53\<close>.
\<close>

theorem incrementAsync_fulfilled_payload:
  "(fetch amount = Resolve response \<longrightarrow>
      incrementAsync_settled fetch amount = IncrementAsyncFulfilled (data response)) \<and>
   incrementAsync_settled (fetchCount False) amount = IncrementAsyncFulfilled amount \<and>
   value_n (counter (incrementAsync_settle (fetchCount False) amount st))
     = js_add (value_n (counter st)) amount \<and>
   status (counter (incrementAsync_settle (fetchCount False) amount st)) = ''idle'' \<and>
   (value_n (counter st) = Num v \<and> \<bar>v + k\<bar> \<le> 2 ^ 53 \<longrightarrow>
      value_n (counter (incrementAsync_settle (fetchCount False) (Num k) st)) = Num (v + k))"
  by (simp add: incrementAsync_settle_def incrementAsync_settled_def
      incrementAsync_payloadCreator_def fetchCount_def dispatch_def
      incrementAsync_fulfilled_def round64_exact)

theorem incrementAsync_fulfilled_payload_witness:
  "fetchCount False (Num 7) = Resolve \<lparr>data = Num 7\<rparr> \<and>
   incrementAsync_settled (fetchCount False) (Num 7) = IncrementAsyncFulfilled (Num 7) \<and>
   counter (incrementAsync_start initialRoot) = \<lparr>value_n = Num 0, status = ''loading''\<rparr> \<and>
   \<bar>0 + 7 :: int\<bar> \<le> 2 ^ 53 \<and>
   counter (incrementAsync_settle (fetchCount False) (Num 7) (incrementAsync_start initialRoot))
     = \<lparr>value_n = Num 7, status = ''idle''\<rparr>"
proof -
  have h: "fetchCount False (Num 7) = Resolve \<lparr>data = Num 7\<rparr>"
    by (simp add: fetchCount_def)
  have s: "counter (incrementAsync_start initialRoot) = \<lparr>value_n = Num 0, status = ''loading''\<rparr>"
    by (simp add: incrementAsync_start_def dispatch_def initialRoot_def initialState_def
        incrementAsync_pending_def)
  show ?thesis
    using h s incrementAsync_fulfilled_payload
      [of "fetchCount False" "Num 7" "\<lparr>data = Num 7\<rparr>" "incrementAsync_start initialRoot" 0 7]
    by (simp add: incrementAsync_settle_def dispatch_def incrementAsync_fulfilled_def
        round64_exact)
qed

text \<open>
  C9, beyond the range: at \<open>2 ^ 53\<close>, reached from the initial state, a successful
  \<open>incrementAsync(1)\<close> with the echoing fetcher leaves the number where it was.
\<close>

theorem incrementAsync_echo_rounding_counterexample:
  "incrementAsync_settled (fetchCount False) (Num 1) = IncrementAsyncFulfilled (Num 1) \<and>
   incrementAsync_start (dispatch (IncrementByAmount (Num (2 ^ 53))) initialRoot)
     = \<lparr>counter = \<lparr>value_n = Num (2 ^ 53), status = ''loading''\<rparr>\<rparr> \<and>
   counter (incrementAsync_settle (fetchCount False) (Num 1)
      \<lparr>counter = \<lparr>value_n = Num (2 ^ 53), status = ''loading''\<rparr>\<rparr>)
     = \<lparr>value_n = Num (2 ^ 53), status = ''idle''\<rparr> \<and>
   value_n (counter (incrementAsync_settle (fetchCount False) (Num 1)
      \<lparr>counter = \<lparr>value_n = Num (2 ^ 53), status = ''loading''\<rparr>\<rparr>))
     \<noteq> Num (2 ^ 53 + 1)"
  by (simp add: incrementAsync_settle_def incrementAsync_settled_def
      incrementAsync_payloadCreator_def incrementAsync_start_def fetchCount_def dispatch_def
      initialRoot_def initialState_def incrementByAmount_def incrementAsync_pending_def
      incrementAsync_fulfilled_def round64_exact round64_above_2_53 [simplified])

text \<open>
  C10. The reducers \<open>increment\<close>, \<open>decrement\<close> and \<open>incrementByAmount(n)\<close> leave the
  status as it is, and so does \<open>incrementIfOdd\<close>, whether it dispatches or not.
\<close>

theorem synchronous_operations_keep_status:
  "status (counterReducer s Increment) = status s \<and>
   status (counterReducer s Decrement) = status s \<and>
   status (counterReducer s (IncrementByAmount n)) = status s \<and>
   status (counter (incrementIfOdd n st)) = status (counter st)"
  by (simp add: increment_def decrement_def incrementByAmount_def
      incrementIfOdd_cases dispatch_def)

end
